theory Spec2Isabelle
  imports Main "HOL-Library.Sublist"
begin

section \<open>Python values, exceptions and string operations\<close>

text \<open>
  The application (\<^verbatim>\<open>app.py\<close>) is a Flask program: a file-name validator, a text
  extractor over two document libraries, two prompt templates rendered with
  \<^verbatim>\<open>str.format\<close>, and two request handlers. Strings are lists of characters.
  An exception is a value; a function of the source that can raise returns
  \<open>py_exception + 'a\<close> with \<open>Inl\<close> for the exception.
\<close>

datatype py_exception =
    IndexError
  | KeyError string
  | ValueError string
  | FileNotFoundError string
  | PermissionError string
  | PackageNotFoundError string
  | Failure string
  | Unmodelled string

text \<open>
  \<open>FileNotFoundError\<close> and \<open>PermissionError\<close> carry the path the operating system
  refused; \<open>PackageNotFoundError\<close> is python-docx's exception for a path that is
  not a package (no file, or a file that is not a zip archive), and carries the
  path as well. \<open>Failure msg\<close> is any other exception raised inside an external
  library (pdfplumber, python-docx, the Gemini client) whose \<^verbatim>\<open>str(e)\<close> is \<open>msg\<close>.
  \<open>Unmodelled\<close> is not
  a Python exception: it marks a format-string construct outside this embedding.
  \<open>exc_str\<close> is \<^verbatim>\<open>str(e)\<close>, which an f-string \<^verbatim>\<open>{e}\<close> renders.
\<close>

fun exc_str :: "py_exception \<Rightarrow> string" where
  "exc_str IndexError = ''list index out of range''"
| "exc_str (KeyError k) = [CHR 0x27] @ k @ [CHR 0x27]"
| "exc_str (ValueError m) = m"
| "exc_str (FileNotFoundError p) =
     ''[Errno 2] No such file or directory: '' @ [CHR 0x27] @ p @ [CHR 0x27]"
| "exc_str (PermissionError p) =
     ''[Errno 13] Permission denied: '' @ [CHR 0x27] @ p @ [CHR 0x27]"
| "exc_str (PackageNotFoundError p) =
     ''Package not found at '' @ [CHR 0x27] @ p @ [CHR 0x27]"
| "exc_str (Failure m) = m"
| "exc_str (Unmodelled m) = m"

datatype pyval = PyNone | PyStr string

text \<open>\<^verbatim>\<open>str(v)\<close>, as \<^verbatim>\<open>str.format\<close> renders a value with an empty format specifier.\<close>

fun py_str :: "pyval \<Rightarrow> string" where
  "py_str PyNone = ''None''"
| "py_str (PyStr s) = s"

text \<open>\<^verbatim>\<open>v or ""\<close>: \<^verbatim>\<open>None\<close> and the empty string are falsy.\<close>

fun py_or_empty :: "pyval \<Rightarrow> string" where
  "py_or_empty PyNone = ''''"
| "py_or_empty (PyStr s) = (if s = '''' then '''' else s)"

text \<open>\<^verbatim>\<open>sub in s\<close> on strings: \<open>sub\<close> occurs in \<open>s\<close> as a contiguous block.\<close>

fun py_in :: "string \<Rightarrow> string \<Rightarrow> bool" where
  "py_in sub [] = (sub = [])"
| "py_in sub (c # cs) = (prefix sub (c # cs) \<or> py_in sub cs)"

text \<open>\<^verbatim>\<open>s.endswith(suf)\<close> and \<^verbatim>\<open>s.startswith(pre)\<close>.\<close>

definition endswith :: "string \<Rightarrow> string \<Rightarrow> bool" where
  "endswith s suf = (length suf \<le> length s \<and> drop (length s - length suf) s = suf)"

definition startswith :: "string \<Rightarrow> string \<Rightarrow> bool" where
  "startswith s pre = (take (length pre) s = pre)"

text \<open>
  \<^verbatim>\<open>s.lower()\<close>. The letters \<open>A\<close> to \<open>Z\<close> are mapped to \<open>a\<close> to \<open>z\<close>; every
  other character is left as it is.
\<close>

definition lower_char :: "char \<Rightarrow> char" where
  "lower_char c =
     (case map_of (zip ''ABCDEFGHIJKLMNOPQRSTUVWXYZ'' ''abcdefghijklmnopqrstuvwxyz'') c of
        Some d \<Rightarrow> d
      | None \<Rightarrow> c)"

definition lower :: "string \<Rightarrow> string" where
  "lower s = map lower_char s"

text \<open>
  \<^verbatim>\<open>s.rsplit(c, 1)\<close> for a one-character separator: at most one split, at the last
  occurrence of \<open>c\<close>; a string without \<open>c\<close> comes back as the only element.
\<close>

definition rsplit1 :: "string \<Rightarrow> char \<Rightarrow> string list" where
  "rsplit1 s c =
     (if c \<in> set s
      then [rev (tl (dropWhile (\<lambda>x. x \<noteq> c) (rev s))), rev (takeWhile (\<lambda>x. x \<noteq> c) (rev s))]
      else [s])"

text \<open>\<^verbatim>\<open>xs[i]\<close> for an index \<open>i \<ge> 0\<close>: out of range raises \<^verbatim>\<open>IndexError\<close>.\<close>

definition py_get :: "'a list \<Rightarrow> nat \<Rightarrow> py_exception + 'a" where
  "py_get xs i = (if i < length xs then Inr (xs ! i) else Inl IndexError)"

text \<open>\<^verbatim>\<open>sep.join(parts)\<close>.\<close>

fun py_join :: "string \<Rightarrow> string list \<Rightarrow> string" where
  "py_join sep [] = ''''"
| "py_join sep [p] = p"
| "py_join sep (p # q # ps) = p @ sep @ py_join sep (q # ps)"

subsection \<open>\<^verbatim>\<open>str.format\<close> with keyword arguments\<close>

text \<open>
  \<^verbatim>\<open>template.format(**kw)\<close> reads the template from left to right. Outside a
  replacement field, \<^verbatim>\<open>{{\<close> and \<^verbatim>\<open>}}\<close> are the literal braces, a single \<^verbatim>\<open>}\<close> raises
  \<^verbatim>\<open>ValueError\<close> and a single \<^verbatim>\<open>{\<close> opens a field that runs to the next \<^verbatim>\<open>}\<close>. The
  field's name is looked up among the keyword arguments (\<^verbatim>\<open>KeyError\<close> when absent)
  and the value is rendered with \<^verbatim>\<open>str\<close>; the rendered value is not read again
  for braces. An empty or numeric name refers to a positional argument, of which
  there are none (\<^verbatim>\<open>IndexError\<close>). Conversions (\<^verbatim>\<open>!r\<close>), format specifiers
  (\<^verbatim>\<open>:>10\<close>), attribute and index access and nested fields are not used by the
  templates of the program and are outside the model.

  The first argument of \<open>format_go\<close> is \<open>None\<close> in literal text and \<open>Some acc\<close>
  inside a field, \<open>acc\<close> being the field's name read so far, reversed.
\<close>

fun prepend :: "string \<Rightarrow> py_exception + string \<Rightarrow> py_exception + string" where
  "prepend s (Inl e) = Inl e"
| "prepend s (Inr t) = Inr (s @ t)"

definition format_field :: "string \<Rightarrow> (string \<rightharpoonup> pyval) \<Rightarrow> py_exception + string" where
  "format_field fname kw =
     (if \<exists>c \<in> set fname. c \<in> set ''{!:.[''
      then Inl (Unmodelled ''replacement field outside the model'')
      else if \<forall>c \<in> set fname. c \<in> set ''0123456789''
      then Inl IndexError
      else (case kw fname of
              None \<Rightarrow> Inl (KeyError fname)
            | Some v \<Rightarrow> Inr (py_str v)))"

fun format_go ::
  "string option \<Rightarrow> string \<Rightarrow> (string \<rightharpoonup> pyval) \<Rightarrow> py_exception + string" where
  \<open>format_go None [] kw = Inr ''''\<close>
| \<open>format_go None (c # cs) kw =
     (if c = CHR ''{'' then
        (if cs = [] then Inl (ValueError ''Single \'{\' encountered in format string'')
         else if hd cs = CHR ''{'' then prepend ''{'' (format_go None (tl cs) kw)
         else format_go (Some []) cs kw)
      else if c = CHR ''}'' then
        (if cs \<noteq> [] \<and> hd cs = CHR ''}'' then prepend ''}'' (format_go None (tl cs) kw)
         else Inl (ValueError ''Single \'}\' encountered in format string''))
      else prepend [c] (format_go None cs kw))\<close>
| \<open>format_go (Some acc) [] kw = Inl (ValueError ''expected \'}\' before end of string'')\<close>
| \<open>format_go (Some acc) (c # cs) kw =
     (if c = CHR ''}'' then
        (case format_field (rev acc) kw of
           Inl e \<Rightarrow> Inl e
         | Inr s \<Rightarrow> prepend s (format_go None cs kw))
      else format_go (Some (c # acc)) cs kw)\<close>

definition format_str :: "string \<Rightarrow> (string \<rightharpoonup> pyval) \<Rightarrow> py_exception + string" where
  "format_str template kw = format_go None template kw"

section \<open>The file validator\<close>

text \<open>
  \<^verbatim>\<open>return '.' in filename and filename.rsplit('.', 1)[1].lower() in {'pdf', 'docx'}\<close>

  The conjunction is evaluated from left to right: the split is indexed only when
  the name has a dot.
\<close>

definition allowed_file :: "string \<Rightarrow> py_exception + bool" where
  "allowed_file filename =
     (if py_in ''.'' filename
      then (case py_get (rsplit1 filename (CHR ''.'')) 1 of
              Inl e \<Rightarrow> Inl e
            | Inr ext \<Rightarrow> Inr (lower ext \<in> {''pdf'', ''docx''}))
      else Inr False)"

section \<open>The text extractor\<close>

text \<open>
  The two document libraries are outside the program. A file on disk is modelled
  by what they make of it: \<open>pdf_view\<close> is the outcome of \<^verbatim>\<open>pdfplumber.open\<close> (an
  exception, or the pages, each page being the outcome of \<^verbatim>\<open>page.extract_text()\<close>:
  an exception, \<^verbatim>\<open>None\<close> or a string), and \<open>docx_view\<close> is the outcome of
  \<^verbatim>\<open>docx.Document\<close> (an exception, or the texts of the paragraphs). A file that is
  not a zip archive has \<open>PackageNotFoundError\<close> as its \<open>docx_view\<close>; python-docx
  puts the path it was asked to open into that exception, so \<open>docx_Document\<close>
  fills the path in, as it does for a path where no file is. The file system maps
  a path, as it is written, to the file stored there; two spellings of one
  location are two keys.
\<close>

record blob =
  pdf_view :: "py_exception + (py_exception + pyval) list"
  docx_view :: "py_exception + string list"

type_synonym filesystem = "string \<rightharpoonup> blob"

definition pdfplumber_open ::
  "filesystem \<Rightarrow> string \<Rightarrow> py_exception + (py_exception + pyval) list" where
  "pdfplumber_open dsk file_path =
     (case dsk file_path of
        None \<Rightarrow> Inl (FileNotFoundError file_path)
      | Some b \<Rightarrow> pdf_view b)"

definition docx_Document :: "filesystem \<Rightarrow> string \<Rightarrow> py_exception + string list" where
  "docx_Document dsk file_path =
     (case dsk file_path of
        None \<Rightarrow> Inl (PackageNotFoundError file_path)
      | Some b \<Rightarrow>
          (case docx_view b of
             Inl (PackageNotFoundError _) \<Rightarrow> Inl (PackageNotFoundError file_path)
           | r \<Rightarrow> r))"

text \<open>
  \<^verbatim>\<open>for page in pdf.pages: text += page.extract_text() or ""\<close>: the loop stops at the
  first page whose extraction raises.
\<close>

fun pdf_pages_text :: "string \<Rightarrow> (py_exception + pyval) list \<Rightarrow> py_exception + string" where
  "pdf_pages_text text [] = Inr text"
| "pdf_pages_text text (Inl e # pages) = Inl e"
| "pdf_pages_text text (Inr t # pages) = pdf_pages_text (text @ py_or_empty t) pages"

text \<open>\<^verbatim>\<open>for paragraph in doc.paragraphs: text += paragraph.text + "\n"\<close>\<close>

fun docx_paragraphs_text :: "string \<Rightarrow> string list \<Rightarrow> string" where
  "docx_paragraphs_text text [] = text"
| "docx_paragraphs_text text (paragraph # paragraphs) =
     docx_paragraphs_text (text @ (paragraph @ ''\<newline>'')) paragraphs"

text \<open>The bodies of the two \<^verbatim>\<open>try\<close> blocks, with \<open>text\<close> starting empty.\<close>

definition pdf_try :: "filesystem \<Rightarrow> string \<Rightarrow> py_exception + string" where
  "pdf_try dsk file_path =
     (case pdfplumber_open dsk file_path of
        Inl e \<Rightarrow> Inl e
      | Inr pages \<Rightarrow> pdf_pages_text '''' pages)"

definition docx_try :: "filesystem \<Rightarrow> string \<Rightarrow> py_exception + string" where
  "docx_try dsk file_path =
     (case docx_Document dsk file_path of
        Inl e \<Rightarrow> Inl e
      | Inr paragraphs \<Rightarrow> Inr (docx_paragraphs_text '''' paragraphs))"

text \<open>
  \<^verbatim>\<open>extract_text_from_file\<close>: the branch is chosen by the suffix of the path, compared
  as it is written; each \<^verbatim>\<open>except Exception as e\<close> returns the message string; any
  other path returns the empty \<open>text\<close>.
\<close>

definition extract_text_from_file :: "filesystem \<Rightarrow> string \<Rightarrow> string" where
  "extract_text_from_file dsk file_path =
     (if endswith file_path ''.pdf'' then
        (case pdf_try dsk file_path of
           Inl e \<Rightarrow> ''Error extracting text from PDF: '' @ exc_str e
         | Inr text \<Rightarrow> text)
      else if endswith file_path ''.docx'' then
        (case docx_try dsk file_path of
           Inl e \<Rightarrow> ''Error extracting text from DOCX: '' @ exc_str e
         | Inr text \<Rightarrow> text)
      else '''')"

section \<open>The prompt templates\<close>

text \<open>
  Each template is a triple-quoted literal of the source, given here line by line;
  the template is the lines joined by the newline character. The first line is
  empty (the literal opens with a line break); the last line is what stands before
  the closing quotes.
\<close>

definition RESUME_ANALYZER_PROMPT_lines :: "string list" where
  \<open>RESUME_ANALYZER_PROMPT_lines = [
     '''',
     ''You are a senior business analyst and career coach. Your task is to analyze the following resume for a business analyst or data analyst role.'',
     '''',
     ''Based on the provided resume text below, perform the following three tasks and present the output in a clear, easy-to-read Markdown format. Use bold headings and bullet points.'',
     '''',
     ''1.  **Resume Score & Justification**'',
     ''    - Give a score from 1 to 100 based on the resume\'s effectiveness.'',
     ''    - Provide a brief, bulleted justification for this score.'',
     '''',
     ''2.  **Tips for Improvement**'',
     ''    - Provide 3-5 concrete, actionable tips to improve the resume\'s clarity and impact.'',
     ''    - Focus on areas like structure, grammar, professional tone, and missing sections.'',
     '''',
     ''3.  **Keyword and Quantifiable Impact Suggestions**'',
     ''    - **Missing Keywords:** Identify 3-5 crucial industry keywords (e.g., SQL, Tableau, Power BI, Python, R, predictive modeling, A/B testing, ETL, dashboarding) that are missing or underutilized.'',
     ''    - **Quantifiable Impact:** For each project or experience bullet point, suggest how to rephrase it to include quantifiable results or metrics. Provide specific, numbered examples for each section of the resume.'',
     '''',
     ''**Resume Text:**'',
     ''{resume_text}'',
     '''',
     '''']\<close>

definition RESUME_ANALYZER_PROMPT :: string where
  "RESUME_ANALYZER_PROMPT = py_join ''\<newline>'' RESUME_ANALYZER_PROMPT_lines"

definition RESUME_BUILDER_PROMPT_lines :: "string list" where
  \<open>RESUME_BUILDER_PROMPT_lines = [
     '''',
     ''You are a professional YAML code agent specializing in generating a single, complete RenderCV configuration file for the \'sb2nov\' theme.'',
     '''',
     ''Based on the provided user information, you must generate a well-structured YAML code block. The code should start with `cv:` and end correctly, with no extra conversational text or code fences (like ```yaml).'',
     '''',
     ''**YAML Code Generation Instructions:**'',
     ''- **Professional Summary:** Generate a concise, 2-3 sentence professional summary based on the provided user details, focusing on business/data analyst skills. This should be the very first section in `cv.sections`.'',
     ''- **Order of Sections:** The sections in the generated YAML must be in this exact order: `professional_summary`, `experience`, `education`, `projects`, `skills`, `interests`, `languages`.'',
     ''- **Formatting:** Use 2-space indentation. Ensure all lists (`-`) and key-value pairs are formatted correctly.'',
     ''- **Single Page Fit:** Include the provided `design` block with the reduced margins to ensure the CV fits on a single page.'',
     '''',
     ''**User Information to convert to YAML:**'',
     ''Name: {name}'',
     ''Email: {email}'',
     ''Phone: {phone}'',
     ''LinkedIn: {linkedin}'',
     ''GitHub: {github}'',
     ''Education: {education}'',
     ''Experience: {experience}'',
     ''Projects: {projects}'',
     ''Skills: {skills}'',
     ''Interests: {interests}'',
     ''Languages: {languages}'',
     '''',
     ''**Output the complete YAML code block, and nothing else.**'',
     '''',
     ''cv:'',
     ''  name: {name}'',
     ''  location: Location'',
     ''  email: {email}'',
     ''  phone: {phone}'',
     ''  social_networks:'',
     ''    - network: LinkedIn'',
     ''      username: {linkedin}'',
     ''    - network: GitHub'',
     ''      username: {github}'',
     ''  sections:'',
     ''    professional_summary:'',
     ''      - \'[Generate a 2-3 sentence professional summary based on the user data above. Start with "I am a..."]'' @ [CHR 0x27],
     ''    experience:'',
     ''      {experience}'',
     ''    education:'',
     ''      {education}'',
     ''    projects:'',
     ''      {projects}'',
     ''    skills:'',
     ''      {skills}'',
     ''    interests:'',
     ''      - bullet: {interests}'',
     ''    languages:'',
     ''      - bullet: {languages}'',
     ''design:'',
     ''  theme: sb2nov'',
     ''  page:'',
     ''    size: us-letter'',
     ''    top_margin: 1cm'',
     ''    bottom_margin: 1cm'',
     ''    left_margin: 1cm'',
     ''    right_margin: 1cm'',
     ''    show_page_numbering: false'',
     ''    show_last_updated_date: false'',
     ''  header:'',
     ''    name_font_size: 20pt'',
     ''    vertical_space_between_name_and_connections: 0.4cm'',
     ''    vertical_space_between_connections_and_first_section: 0.4cm'',
     ''    alignment: center'',
     ''  section_titles:'',
     ''    font_size: 1.2em'',
     ''    line_thickness: 0.5pt'',
     ''    vertical_space_above: 0.3cm'',
     ''    vertical_space_below: 0.2cm'',
     ''  entries:'',
     ''    vertical_space_between_entries: 0.6em'',
     ''    short_second_row: true'',
     ''  highlights:'',
     ''    top_margin: 0.15cm'',
     ''    left_margin: 0.4cm'',
     ''    vertical_space_between_highlights: 0.2cm'',
     ''    horizontal_space_between_bullet_and_highlight: 0.5em'',
     ''  text:'',
     ''    font_size: 9pt'',
     ''    leading: 0.5em'',
     ''    '']\<close>

definition RESUME_BUILDER_PROMPT :: string where
  "RESUME_BUILDER_PROMPT = py_join ''\<newline>'' RESUME_BUILDER_PROMPT_lines"

section \<open>The request handlers\<close>

text \<open>
  A request carries its method (\<open>http_method\<close>, the \<^verbatim>\<open>request.method\<close> of the source),
  its URL, the form fields and the uploaded files.
  \<^verbatim>\<open>request.form.get(k)\<close> is \<^verbatim>\<open>None\<close> for a field that was not submitted. An
  uploaded file (werkzeug's \<^verbatim>\<open>FileStorage\<close>) has the file name the client sent and
  its content; it is truthy when its name is not empty.
\<close>

record upload =
  filename :: string
  content :: blob

record request =
  http_method :: string
  url :: string
  form :: "string \<rightharpoonup> string"
  files :: "string \<rightharpoonup> upload"

definition form_get :: "(string \<rightharpoonup> string) \<Rightarrow> string \<Rightarrow> pyval" where
  "form_get f k = (case f k of None \<Rightarrow> PyNone | Some v \<Rightarrow> PyStr v)"

definition upload_truthy :: "upload \<Rightarrow> bool" where
  "upload_truthy file = (filename file \<noteq> '''')"

text \<open>
  What a handler can change: the files on disk, the flashed messages (message and
  category, in order) and the prompts sent to the provider (in order).
\<close>

datatype gen_model = model_flash | model_pro

record world =
  disk :: filesystem
  flashes :: "(string \<times> string) list"
  llm_calls :: "(gen_model \<times> string) list"

text \<open>
  What the handlers call outside the program: \<open>generate_content m prompt\<close> is the
  outcome of \<^verbatim>\<open>m.generate_content(prompt)\<close> followed by \<^verbatim>\<open>response.text\<close> (the text, or
  the exception one of the two raises); \<open>markdown\<close> is \<^verbatim>\<open>markdown.markdown\<close>;
  \<open>save_error dst\<close> is the exception that writing a file at \<open>dst\<close> raises, if any
  (a directory that does not exist, a permission); \<open>remove_error path\<close> is the
  exception that removing the file that exists at \<open>path\<close> raises, if any (a
  directory that may not be written, a file in use).
\<close>

record env =
  generate_content :: "gen_model \<Rightarrow> string \<Rightarrow> py_exception + string"
  markdown :: "string \<Rightarrow> string"
  save_error :: "string \<Rightarrow> py_exception option"
  remove_error :: "string \<Rightarrow> py_exception option"

text \<open>
  A handler returns a redirect, a rendered template with its arguments, or lets an
  exception escape (Flask then answers with a server error).
\<close>

datatype response =
    Redirect string
  | Render string "(string \<times> pyval) list"
  | ServerError py_exception

definition UPLOAD_FOLDER :: string where
  "UPLOAD_FOLDER = ''uploads''"

text \<open>\<^verbatim>\<open>url_for\<close> at the routes of the program: \<^verbatim>\<open>/\<close>, \<^verbatim>\<open>/builder\<close>, \<^verbatim>\<open>/analyzer\<close>.\<close>

definition url_for :: "string \<Rightarrow> string" where
  "url_for endpoint = (if endpoint = ''index'' then ''/'' else ''/'' @ endpoint)"

text \<open>\<^verbatim>\<open>os.path.join(a, b)\<close> (POSIX): an absolute \<open>b\<close> replaces \<open>a\<close>.\<close>

definition os_path_join :: "string \<Rightarrow> string \<Rightarrow> string" where
  "os_path_join a b =
     (if startswith b ''/'' then b
      else if a = '''' \<or> endswith a ''/'' then a @ b
      else a @ ''/'' @ b)"

definition flash :: "string \<Rightarrow> string \<Rightarrow> world \<Rightarrow> world" where
  "flash message category w = w\<lparr>flashes := flashes w @ [(message, category)]\<rparr>"

text \<open>
  \<^verbatim>\<open>file.save(dst)\<close> and \<^verbatim>\<open>os.remove(path)\<close>. Removing a path where no file is
  raises \<^verbatim>\<open>FileNotFoundError\<close>; removing a file that is there can still be refused
  by the operating system, and the file then stays.
\<close>

definition save :: "env \<Rightarrow> upload \<Rightarrow> string \<Rightarrow> world \<Rightarrow> py_exception + world" where
  "save ev file dst w =
     (case save_error ev dst of
        Some e \<Rightarrow> Inl e
      | None \<Rightarrow> Inr (w\<lparr>disk := (disk w)(dst \<mapsto> content file)\<rparr>))"

definition os_remove :: "env \<Rightarrow> string \<Rightarrow> world \<Rightarrow> py_exception + world" where
  "os_remove ev path w =
     (if path \<in> dom (disk w) then
        (case remove_error ev path of
           Some e \<Rightarrow> Inl e
         | None \<Rightarrow> Inr (w\<lparr>disk := (disk w)(path := None)\<rparr>))
      else Inl (FileNotFoundError path))"

text \<open>The provider call: the prompt is recorded, then the call returns or raises.\<close>

definition call_llm ::
  "env \<Rightarrow> gen_model \<Rightarrow> string \<Rightarrow> world \<Rightarrow> (py_exception + string) \<times> world" where
  "call_llm ev m prompt w =
     (generate_content ev m prompt, w\<lparr>llm_calls := llm_calls w @ [(m, prompt)]\<rparr>)"

subsection \<open>\<^verbatim>\<open>/builder\<close>\<close>

definition builder_kwargs :: "(string \<rightharpoonup> string) \<Rightarrow> (string \<rightharpoonup> pyval)" where
  "builder_kwargs f =
     (let name = form_get f ''name'';
          email = form_get f ''email'';
          phone = form_get f ''phone'';
          linkedin = form_get f ''linkedin'';
          github = form_get f ''github'';
          education_text = form_get f ''education'';
          experience_text = form_get f ''experience'';
          projects_text = form_get f ''projects'';
          skills_text = form_get f ''skills'';
          interests_text = form_get f ''interests'';
          languages_text = form_get f ''languages''
      in [''name'' \<mapsto> name, ''email'' \<mapsto> email, ''phone'' \<mapsto> phone,
          ''linkedin'' \<mapsto> linkedin, ''github'' \<mapsto> github,
          ''education'' \<mapsto> education_text, ''experience'' \<mapsto> experience_text,
          ''projects'' \<mapsto> projects_text, ''skills'' \<mapsto> skills_text,
          ''interests'' \<mapsto> interests_text, ''languages'' \<mapsto> languages_text])"

definition builder_prompt :: "(string \<rightharpoonup> string) \<Rightarrow> py_exception + string" where
  "builder_prompt f = format_str RESUME_BUILDER_PROMPT (builder_kwargs f)"

definition builder :: "env \<Rightarrow> request \<Rightarrow> world \<Rightarrow> response \<times> world" where
  "builder ev req w =
     (if http_method req = ''POST'' then
        (case builder_prompt (form req) of
           Inl e \<Rightarrow> (ServerError e, w)
         | Inr prompt \<Rightarrow>
             (case call_llm ev model_flash prompt w of
                (Inr yaml_code, w1) \<Rightarrow>
                  (Render ''builder.html'' [(''yaml_code'', PyStr yaml_code)], w1)
              | (Inl e, w1) \<Rightarrow>
                  (Redirect (url_for ''builder''),
                   flash (''Error generating resume: '' @ exc_str e) ''danger'' w1)))
      else (Render ''builder.html'' [], w))"

subsection \<open>\<^verbatim>\<open>/analyzer\<close>\<close>

definition analyzer_prompt :: "string \<Rightarrow> py_exception + string" where
  "analyzer_prompt resume_text =
     format_str RESUME_ANALYZER_PROMPT [''resume_text'' \<mapsto> PyStr resume_text]"

text \<open>
  The part of the handler after the extracted text is known and the file removed:
  the check for \<^verbatim>\<open>"Error" in resume_text\<close>, the prompt and the provider call.
\<close>

definition analyze_text :: "env \<Rightarrow> string \<Rightarrow> world \<Rightarrow> response \<times> world" where
  "analyze_text ev resume_text w =
     (if py_in ''Error'' resume_text then
        (Redirect (url_for ''analyzer''),
         flash (''Error processing file: '' @ resume_text) ''danger'' w)
      else
        (case analyzer_prompt resume_text of
           Inl e \<Rightarrow> (ServerError e, w)
         | Inr prompt \<Rightarrow>
             (case call_llm ev model_pro prompt w of
                (Inr text, w1) \<Rightarrow>
                  (Render ''analyzer.html'' [(''results'', PyStr (markdown ev text))], w1)
              | (Inl e, w1) \<Rightarrow>
                  (Redirect (url_for ''analyzer''),
                   flash (''Error analyzing resume: '' @ exc_str e) ''danger'' w1))))"

text \<open>
  The part of the handler for an accepted file: save, extract, remove, then the
  rest. An exception of \<^verbatim>\<open>file.save\<close> or \<^verbatim>\<open>os.remove\<close> is not caught.
\<close>

definition analyze_upload :: "env \<Rightarrow> upload \<Rightarrow> world \<Rightarrow> response \<times> world" where
  "analyze_upload ev file w =
     (let filepath = os_path_join UPLOAD_FOLDER (filename file) in
      case save ev file filepath w of
        Inl e \<Rightarrow> (ServerError e, w)
      | Inr w1 \<Rightarrow>
          (let resume_text = extract_text_from_file (disk w1) filepath in
           case os_remove ev filepath w1 of
             Inl e \<Rightarrow> (ServerError e, w1)
           | Inr w2 \<Rightarrow> analyze_text ev resume_text w2))"

definition analyzer :: "env \<Rightarrow> request \<Rightarrow> world \<Rightarrow> response \<times> world" where
  "analyzer ev req w =
     (if http_method req = ''POST'' then
        (case files req ''resume_file'' of
           None \<Rightarrow> (Redirect (url req), flash ''No file part'' ''danger'' w)
         | Some file \<Rightarrow>
             if filename file = '''' then
               (Redirect (url req), flash ''No selected file'' ''danger'' w)
             else
               (case (if upload_truthy file then allowed_file (filename file) else Inr False) of
                  Inl e \<Rightarrow> (ServerError e, w)
                | Inr True \<Rightarrow> analyze_upload ev file w
                | Inr False \<Rightarrow>
                    (Redirect (url req),
                     flash ''Invalid file type. Please upload a PDF or DOCX.'' ''danger'' w)))
      else (Render ''analyzer.html'' [(''results'', PyNone)], w))"

section \<open>Observations on a rendered prompt\<close>





section \<open>Example inputs\<close>

text \<open>
  Files as the libraries see them: one that neither library can open, a PDF whose
  second page cannot be read, a PDF of three pages (the second without text), a
  DOCX of two paragraphs, and a readable PDF whose text has the word Error in it.
  None but \<open>good_docx\<close> is a zip archive.
\<close>

definition corrupt :: blob where
  "corrupt = \<lparr>pdf_view = Inl (Failure ''No /Root object! - Is this really a PDF?''),
              docx_view = Inl (PackageNotFoundError '''')\<rparr>"

definition half_pdf :: blob where
  "half_pdf = \<lparr>pdf_view = Inr [Inr (PyStr ''Jane Doe''), Inl (Failure ''bad page'')],
               docx_view = Inl (PackageNotFoundError '''')\<rparr>"

definition good_pdf :: blob where
  "good_pdf = \<lparr>pdf_view = Inr [Inr (PyStr ''Jane Doe''), Inr PyNone, Inr (PyStr ''Analyst'')],
               docx_view = Inl (PackageNotFoundError '''')\<rparr>"

definition good_docx :: blob where
  "good_docx = \<lparr>pdf_view = Inl (Failure ''No /Root object! - Is this really a PDF?''),
                docx_view = Inr [''Jane Doe'', ''Analyst'']\<rparr>"

definition error_pdf :: blob where
  "error_pdf = \<lparr>pdf_view = Inr [Inr (PyStr ''Jane Doe''), Inr (PyStr ''Error budgeting for sensors'')],
                docx_view = Inl (PackageNotFoundError '''')\<rparr>"

text \<open>
  A provider that answers and one that fails, an operating system that refuses
  to remove files, the empty state of the world, an upload request for a file
  under a name, and a filled builder form.
\<close>

definition ev_up :: env where
  "ev_up = \<lparr>generate_content = (\<lambda>m prompt. Inr ''**Score:** 80''),
            markdown = (\<lambda>t. ''<p>'' @ t @ ''</p>''),
            save_error = (\<lambda>dst. None),
            remove_error = (\<lambda>path. None)\<rparr>"

definition ev_down :: env where
  "ev_down = \<lparr>generate_content = (\<lambda>m prompt. Inl (Failure ''429 quota exceeded'')),
              markdown = (\<lambda>t. ''<p>'' @ t @ ''</p>''),
              save_error = (\<lambda>dst. None),
              remove_error = (\<lambda>path. None)\<rparr>"


definition w0 :: world where
  "w0 = \<lparr>disk = Map.empty, flashes = [], llm_calls = []\<rparr>"

definition upload_request :: "string \<Rightarrow> blob \<Rightarrow> request" where
  "upload_request name b =
     \<lparr>http_method = ''POST'', url = ''http://localhost/analyzer'', form = Map.empty,
      files = [''resume_file'' \<mapsto> \<lparr>filename = name, content = b\<rparr>]\<rparr>"

definition jane_form :: "string \<rightharpoonup> string" where
  "jane_form =
     [''name'' \<mapsto> ''Jane Doe'', ''email'' \<mapsto> ''jane@x.com'', ''phone'' \<mapsto> ''555-0100'',
      ''linkedin'' \<mapsto> ''janedoe-li'', ''github'' \<mapsto> ''janedoe-gh'',
      ''education'' \<mapsto> ''BSc Statistics 2019'', ''experience'' \<mapsto> ''Analyst at Acme'',
      ''projects'' \<mapsto> ''Churn dashboard'', ''skills'' \<mapsto> ''SQL, Tableau'',
      ''interests'' \<mapsto> ''chess'', ''languages'' \<mapsto> ''English, Dzongkha'']"

definition builder_request :: "(string \<rightharpoonup> string) \<Rightarrow> request" where
  "builder_request f =
     \<lparr>http_method = ''POST'', url = ''http://localhost/builder'', form = f,
      files = Map.empty\<rparr>"



section \<open>Properties of the file validator\<close>

lemma py_in_single: "py_in [c] s = (c \<in> set s)"
  by (induction s) auto

lemma rsplit1_split:
  assumes "c \<notin> set ext"
  shows "rsplit1 (base @ [c] @ ext) c = [base, ext]"
proof -
  from assms have n: "\<forall>x \<in> set (rev ext). x \<noteq> c" by auto
  have t: "takeWhile (\<lambda>x. x \<noteq> c) (rev ext @ c # rev base) = rev ext"
    using n by (simp add: takeWhile_tail)
  have d: "dropWhile (\<lambda>x. x \<noteq> c) (rev ext @ c # rev base) = c # rev base"
    using n by (simp add: dropWhile_append3)
  show ?thesis using t d by (simp add: rsplit1_def)
qed

lemma split_last_occurrence:
  assumes "c \<in> set s"
  shows "\<exists>base ext. s = base @ [c] @ ext \<and> c \<notin> set ext"
  using assms split_list_last[of c s] by auto

lemma last_split_unique:
  assumes "(c::char) \<notin> set e"
  shows "(\<exists>base ext. b @ [c] @ e = base @ [c] @ ext \<and> c \<notin> set ext \<and> P ext) = P e"
proof
  assume "\<exists>base ext. b @ [c] @ e = base @ [c] @ ext \<and> c \<notin> set ext \<and> P ext"
  then obtain b' e' where eq: "b @ [c] @ e = b' @ [c] @ e'" and e': "c \<notin> set e'" and p: "P e'"
    by blast
  have "rsplit1 (b @ [c] @ e) c = [b', e']"
    unfolding eq using e' by (rule rsplit1_split)
  moreover have "rsplit1 (b @ [c] @ e) c = [b, e]"
    using assms by (rule rsplit1_split)
  ultimately have "e' = e" by simp
  with p show "P e" by simp
next
  assume "P e"
  with assms show "\<exists>base ext. b @ [c] @ e = base @ [c] @ ext \<and> c \<notin> set ext \<and> P ext"
    by blast
qed

lemma allowed_file_dot:
  assumes "CHR ''.'' \<notin> set ext"
  shows "allowed_file (base @ [CHR ''.''] @ ext) = Inr (lower ext \<in> {''pdf'', ''docx''})"
proof -
  have "CHR ''.'' \<in> set (base @ [CHR ''.''] @ ext)" by simp
  then show ?thesis
    unfolding allowed_file_def py_in_single rsplit1_split[OF assms]
    by (simp add: py_get_def)
qed

lemma allowed_file_nodot: "CHR ''.'' \<notin> set f \<Longrightarrow> allowed_file f = Inr False"
  by (simp add: allowed_file_def py_in_single)

lemma allowed_file_iff:
  "allowed_file f =
     Inr (\<exists>base ext. f = base @ [CHR ''.''] @ ext \<and> CHR ''.'' \<notin> set ext \<and> lower ext \<in> {''pdf'', ''docx''})"
proof (cases "CHR ''.'' \<in> set f")
  case False
  then have "\<not> (\<exists>base ext. f = base @ [CHR ''.''] @ ext \<and> CHR ''.'' \<notin> set ext \<and> lower ext \<in> {''pdf'', ''docx''})"
    by auto
  with False show ?thesis by (simp add: allowed_file_nodot)
next
  case True
  from split_last_occurrence[OF True]
  obtain b e where be: "f = b @ [CHR ''.''] @ e \<and> CHR ''.'' \<notin> set e"
    by (elim exE)
  from be have f: "f = b @ [CHR ''.''] @ e" by (rule conjunct1)
  from be have e: "CHR ''.'' \<notin> set e" by (rule conjunct2)
  have "allowed_file (b @ [CHR ''.''] @ e) =
     Inr (\<exists>base ext. b @ [CHR ''.''] @ e = base @ [CHR ''.''] @ ext \<and> CHR ''.'' \<notin> set ext
            \<and> lower ext \<in> {''pdf'', ''docx''})"
    by (simp only: allowed_file_dot[OF e] last_split_unique[OF e])
  then show ?thesis by (simp only: f)
qed

text \<open>
  C1. For every file name \<open>f\<close>, \<^verbatim>\<open>allowed_file(f)\<close> returns true if and only if \<open>f\<close>
  contains a dot and the lowercase suffix after the last dot is \<^verbatim>\<open>pdf\<close> or \<^verbatim>\<open>docx\<close>
  (and it never raises); in particular it is false on \<^verbatim>\<open>resume\<close>, true on
  \<^verbatim>\<open>resume.PDF\<close> and false on \<^verbatim>\<open>resume.pdf.exe\<close>.
\<close>

theorem allowed_file_spec:
  "allowed_file f =
     Inr (\<exists>base ext. f = base @ ''.'' @ ext \<and> CHR ''.'' \<notin> set ext \<and> lower ext \<in> {''pdf'', ''docx''})
   \<and> allowed_file ''resume'' = Inr False
   \<and> allowed_file ''resume.PDF'' = Inr True
   \<and> allowed_file ''resume.pdf.exe'' = Inr False"
proof (intro conjI)
  show "allowed_file f =
     Inr (\<exists>base ext. f = base @ ''.'' @ ext \<and> CHR ''.'' \<notin> set ext \<and> lower ext \<in> {''pdf'', ''docx''})"
    by (rule allowed_file_iff)
  show "allowed_file ''resume'' = Inr False"
    by (simp add: allowed_file_def)
  show "allowed_file ''resume.PDF'' = Inr True"
    by (simp add: allowed_file_def rsplit1_def py_get_def lower_def lower_char_def)
  show "allowed_file ''resume.pdf.exe'' = Inr False"
    by (simp add: allowed_file_def rsplit1_def py_get_def lower_def lower_char_def)
qed

text \<open>
  C9. The claim is that a file name with no extension is accepted, like one with
  an uppercase extension. A name without a dot is rejected: \<^verbatim>\<open>README\<close> is.
\<close>

theorem no_extension_rejected_counterexample:
  "CHR ''.'' \<notin> set ''README'' \<and> allowed_file ''README'' \<noteq> Inr True"
  by (simp add: allowed_file_def)

text \<open>
  C9, as amended. A file name with no extension (no dot) is rejected by the
  validator; a name whose suffix after the last dot is \<^verbatim>\<open>pdf\<close> or \<^verbatim>\<open>docx\<close> in any
  letter case, such as \<^verbatim>\<open>.PDF\<close>, is accepted.
\<close>

theorem extension_case_insensitive:
  "(CHR ''.'' \<notin> set f \<longrightarrow> allowed_file f = Inr False)
   \<and> (CHR ''.'' \<notin> set ext \<and> lower ext \<in> {''pdf'', ''docx''} \<longrightarrow>
        allowed_file (base @ ''.'' @ ext) = Inr True)
   \<and> allowed_file (base @ ''.PDF'') = Inr True"
proof (intro conjI impI)
  assume "CHR ''.'' \<notin> set f"
  then show "allowed_file f = Inr False" by (rule allowed_file_nodot)
next
  assume a: "CHR ''.'' \<notin> set ext \<and> lower ext \<in> {''pdf'', ''docx''}"
  then have n: "CHR ''.'' \<notin> set ext" by (rule conjunct1)
  have "allowed_file (base @ [CHR ''.''] @ ext) = Inr (lower ext \<in> {''pdf'', ''docx''})"
    by (rule allowed_file_dot[OF n])
  with a show "allowed_file (base @ ''.'' @ ext) = Inr True" by simp
next
  have n: "CHR ''.'' \<notin> set ''PDF''" by simp
  have "allowed_file (base @ [CHR ''.''] @ ''PDF'') = Inr (lower ''PDF'' \<in> {''pdf'', ''docx''})"
    using n by (rule allowed_file_dot)
  then show "allowed_file (base @ ''.PDF'') = Inr True"
    by (simp add: lower_def lower_char_def)
qed

theorem extension_case_insensitive_witness:
  "allowed_file ''resume'' = Inr False
   \<and> allowed_file ''resume.DocX'' = Inr True
   \<and> allowed_file ''cv.PDF'' = Inr True"
proof -
  have 1: "CHR ''.'' \<notin> set ''resume''" by simp
  have 2: "CHR ''.'' \<notin> set ''DocX'' \<and> lower ''DocX'' \<in> {''pdf'', ''docx''}"
    by (simp add: lower_def lower_char_def)
  from extension_case_insensitive[where f="''resume''" and ext="''DocX''" and base="''resume''"] 1 2
  have a: "allowed_file ''resume'' = Inr False" and b: "allowed_file ''resume.DocX'' = Inr True"
    by (simp_all add: lower_def lower_char_def)
  from extension_case_insensitive[where f="''resume''" and ext="''DocX''" and base="''cv''"]
  have c: "allowed_file ''cv.PDF'' = Inr True" by simp
  from a b c show ?thesis by (intro conjI)
qed

section \<open>Properties of the text extractor\<close>

lemma endswith_last:
  assumes "endswith s suf" "suf \<noteq> []"
  shows "last s = last suf"
proof -
  from assms have l: "length suf \<le> length s" and d: "drop (length s - length suf) s = suf"
    by (simp_all add: endswith_def)
  from assms l have "length s - length suf < length s" by (cases suf) auto
  then have "last (drop (length s - length suf) s) = last s" by simp
  with d show ?thesis by simp
qed

lemma docx_not_pdf: "endswith p ''.docx'' \<Longrightarrow> \<not> endswith p ''.pdf''"
proof
  assume a: "endswith p ''.docx''" and b: "endswith p ''.pdf''"
  have "last p = CHR ''x''" using endswith_last[OF a] by simp
  moreover have "last p = CHR ''f''" using endswith_last[OF b] by simp
  ultimately show False by simp
qed

lemma pdf_pages_text_ok:
  "pdf_pages_text acc (map Inr ts @ rest) = pdf_pages_text (acc @ concat (map py_or_empty ts)) rest"
  by (induction ts arbitrary: acc) simp_all

lemma docx_paragraphs_text_concat:
  "docx_paragraphs_text acc ps = acc @ concat (map (\<lambda>q. q @ ''\<newline>'') ps)"
  by (induction ps arbitrary: acc) simp_all

lemma py_or_empty_case: "py_or_empty t = (case t of PyNone \<Rightarrow> '''' | PyStr s \<Rightarrow> s)"
  by (cases t) simp_all

text \<open>
  C5. When the extraction of a path ending in \<^verbatim>\<open>.pdf\<close> raises (opening the file
  fails, or reading one of its pages fails after the pages before it were read),
  \<^verbatim>\<open>extract_text_from_file\<close> returns \<^verbatim>\<open>"Error extracting text from PDF: "\<close> followed
  by the message of the exception; when opening a path ending in \<^verbatim>\<open>.docx\<close> raises,
  it returns \<^verbatim>\<open>"Error extracting text from DOCX: "\<close> followed by the message. The
  result is a string in every case: no exception reaches the caller.
\<close>

theorem extract_error_string:
  "(endswith p ''.pdf'' \<and> pdfplumber_open dsk p = Inl e \<longrightarrow>
      extract_text_from_file dsk p = ''Error extracting text from PDF: '' @ exc_str e)
   \<and> (endswith p ''.pdf'' \<and> pdfplumber_open dsk p = Inr (map Inr ts @ Inl e # rest) \<longrightarrow>
      extract_text_from_file dsk p = ''Error extracting text from PDF: '' @ exc_str e)
   \<and> (endswith p ''.docx'' \<and> docx_Document dsk p = Inl e \<longrightarrow>
      extract_text_from_file dsk p = ''Error extracting text from DOCX: '' @ exc_str e)"
proof (intro conjI impI)
  assume "endswith p ''.pdf'' \<and> pdfplumber_open dsk p = Inl e"
  then show "extract_text_from_file dsk p = ''Error extracting text from PDF: '' @ exc_str e"
    by (simp add: extract_text_from_file_def pdf_try_def)
next
  assume "endswith p ''.pdf'' \<and> pdfplumber_open dsk p = Inr (map Inr ts @ Inl e # rest)"
  then show "extract_text_from_file dsk p = ''Error extracting text from PDF: '' @ exc_str e"
    by (simp add: extract_text_from_file_def pdf_try_def pdf_pages_text_ok)
next
  assume a: "endswith p ''.docx'' \<and> docx_Document dsk p = Inl e"
  then have "\<not> endswith p ''.pdf''" by (simp add: docx_not_pdf)
  with a show "extract_text_from_file dsk p = ''Error extracting text from DOCX: '' @ exc_str e"
    by (simp add: extract_text_from_file_def docx_try_def)
qed

theorem extract_error_string_witness:
  "extract_text_from_file [''uploads/cv.pdf'' \<mapsto> corrupt] ''uploads/cv.pdf''
     = ''Error extracting text from PDF: No /Root object! - Is this really a PDF?''
   \<and> extract_text_from_file [''uploads/cv.pdf'' \<mapsto> half_pdf] ''uploads/cv.pdf''
     = ''Error extracting text from PDF: bad page''
   \<and> extract_text_from_file [''uploads/cv.docx'' \<mapsto> corrupt] ''uploads/cv.docx''
     = ''Error extracting text from DOCX: Package not found at ''
         @ [CHR 0x27] @ ''uploads/cv.docx'' @ [CHR 0x27]"
proof -
  have p: "endswith ''uploads/cv.pdf'' ''.pdf''" and d: "endswith ''uploads/cv.docx'' ''.docx''"
    by (simp_all add: endswith_def)
  have 1: "pdfplumber_open [''uploads/cv.pdf'' \<mapsto> corrupt] ''uploads/cv.pdf''
      = Inl (Failure ''No /Root object! - Is this really a PDF?'')"
    by (simp add: pdfplumber_open_def corrupt_def)
  have 2: "pdfplumber_open [''uploads/cv.pdf'' \<mapsto> half_pdf] ''uploads/cv.pdf''
      = Inr (map Inr [PyStr ''Jane Doe''] @ Inl (Failure ''bad page'') # [])"
    by (simp add: pdfplumber_open_def half_pdf_def)
  have 3: "docx_Document [''uploads/cv.docx'' \<mapsto> corrupt] ''uploads/cv.docx''
      = Inl (PackageNotFoundError ''uploads/cv.docx'')"
    by (simp add: docx_Document_def corrupt_def)
  from extract_error_string[where p="''uploads/cv.pdf''" and dsk="[''uploads/cv.pdf'' \<mapsto> corrupt]"
      and e="Failure ''No /Root object! - Is this really a PDF?''"] p 1
  have a: "extract_text_from_file [''uploads/cv.pdf'' \<mapsto> corrupt] ''uploads/cv.pdf''
     = ''Error extracting text from PDF: No /Root object! - Is this really a PDF?''" by simp
  from extract_error_string[where p="''uploads/cv.pdf''" and dsk="[''uploads/cv.pdf'' \<mapsto> half_pdf]"
      and ts="[PyStr ''Jane Doe'']" and e="Failure ''bad page''" and rest="[]"] p 2
  have b: "extract_text_from_file [''uploads/cv.pdf'' \<mapsto> half_pdf] ''uploads/cv.pdf''
     = ''Error extracting text from PDF: bad page''" by simp
  from extract_error_string[where p="''uploads/cv.docx''" and dsk="[''uploads/cv.docx'' \<mapsto> corrupt]"
      and e="PackageNotFoundError ''uploads/cv.docx''"] d 3
  have c: "extract_text_from_file [''uploads/cv.docx'' \<mapsto> corrupt] ''uploads/cv.docx''
     = ''Error extracting text from DOCX: Package not found at ''
         @ [CHR 0x27] @ ''uploads/cv.docx'' @ [CHR 0x27]" by simp
  from a b c show ?thesis by (intro conjI)
qed

text \<open>
  C6. For a readable file, \<^verbatim>\<open>extract_text_from_file\<close> on a path ending in \<^verbatim>\<open>.pdf\<close>
  returns the texts of the pages concatenated in page order, a page without text
  (\<^verbatim>\<open>None\<close>) contributing the empty string; on a path ending in \<^verbatim>\<open>.docx\<close> it
  returns, in paragraph order, each paragraph's text followed by a newline.
\<close>

theorem extract_readable:
  "(endswith p ''.pdf'' \<and> dsk p = Some b \<and> pdf_view b = Inr (map Inr ts) \<longrightarrow>
      extract_text_from_file dsk p = concat (map (\<lambda>t. case t of PyNone \<Rightarrow> '''' | PyStr s \<Rightarrow> s) ts))
   \<and> (endswith p ''.docx'' \<and> dsk p = Some b \<and> docx_view b = Inr paragraphs \<longrightarrow>
      extract_text_from_file dsk p = concat (map (\<lambda>q. q @ ''\<newline>'') paragraphs))"
proof (intro conjI impI)
  assume a: "endswith p ''.pdf'' \<and> dsk p = Some b \<and> pdf_view b = Inr (map Inr ts)"
  have "pdf_pages_text '''' (map Inr ts @ []) = Inr (concat (map py_or_empty ts))"
    by (simp only: pdf_pages_text_ok) simp
  then have "pdf_pages_text '''' (map Inr ts) = Inr (concat (map py_or_empty ts))" by simp
  moreover have "map py_or_empty ts = map (\<lambda>t. case t of PyNone \<Rightarrow> '''' | PyStr s \<Rightarrow> s) ts"
    by (simp add: py_or_empty_case)
  ultimately show "extract_text_from_file dsk p
      = concat (map (\<lambda>t. case t of PyNone \<Rightarrow> '''' | PyStr s \<Rightarrow> s) ts)"
    using a by (simp add: extract_text_from_file_def pdf_try_def pdfplumber_open_def)
next
  assume a: "endswith p ''.docx'' \<and> dsk p = Some b \<and> docx_view b = Inr paragraphs"
  then have "\<not> endswith p ''.pdf''" by (simp add: docx_not_pdf)
  with a show "extract_text_from_file dsk p = concat (map (\<lambda>q. q @ ''\<newline>'') paragraphs)"
    by (simp add: extract_text_from_file_def docx_try_def docx_Document_def
        docx_paragraphs_text_concat)
qed

theorem extract_readable_witness:
  "extract_text_from_file [''uploads/cv.pdf'' \<mapsto> good_pdf] ''uploads/cv.pdf'' = ''Jane DoeAnalyst''
   \<and> extract_text_from_file [''uploads/cv.docx'' \<mapsto> good_docx] ''uploads/cv.docx''
       = ''Jane Doe\<newline>Analyst\<newline>''"
proof -
  have p: "endswith ''uploads/cv.pdf'' ''.pdf''" and d: "endswith ''uploads/cv.docx'' ''.docx''"
    by (simp_all add: endswith_def)
  have 1: "pdf_view good_pdf = Inr (map Inr [PyStr ''Jane Doe'', PyNone, PyStr ''Analyst''])"
    by (simp add: good_pdf_def)
  have 2: "docx_view good_docx = Inr [''Jane Doe'', ''Analyst'']"
    by (simp add: good_docx_def)
  from extract_readable[where p="''uploads/cv.pdf''" and dsk="[''uploads/cv.pdf'' \<mapsto> good_pdf]"
      and b=good_pdf and ts="[PyStr ''Jane Doe'', PyNone, PyStr ''Analyst'']"] p 1
  have a: "extract_text_from_file [''uploads/cv.pdf'' \<mapsto> good_pdf] ''uploads/cv.pdf''
      = ''Jane DoeAnalyst''" by simp
  from extract_readable[where p="''uploads/cv.docx''" and dsk="[''uploads/cv.docx'' \<mapsto> good_docx]"
      and b=good_docx and paragraphs="[''Jane Doe'', ''Analyst'']"] d 2
  have c: "extract_text_from_file [''uploads/cv.docx'' \<mapsto> good_docx] ''uploads/cv.docx''
       = ''Jane Doe\<newline>Analyst\<newline>''" by simp
  from a c show ?thesis by (intro conjI)
qed

text \<open>
  C7. The claim is that every file name accepted by \<^verbatim>\<open>allowed_file\<close> takes the PDF
  or the DOCX branch of \<^verbatim>\<open>extract_text_from_file\<close>. The validator lowercases the
  suffix, the extractor compares it as written: \<^verbatim>\<open>resume.PDF\<close> is accepted, its path
  \<^verbatim>\<open>uploads/resume.PDF\<close> ends neither in \<^verbatim>\<open>.pdf\<close> nor in \<^verbatim>\<open>.docx\<close>, and the
  extractor returns the empty text without opening a readable three-page PDF.
\<close>

theorem uppercase_pdf_falls_through:
  "allowed_file ''resume.PDF'' = Inr True
   \<and> os_path_join UPLOAD_FOLDER ''resume.PDF'' = ''uploads/resume.PDF''
   \<and> \<not> endswith (os_path_join UPLOAD_FOLDER ''resume.PDF'') ''.pdf''
   \<and> \<not> endswith (os_path_join UPLOAD_FOLDER ''resume.PDF'') ''.docx''
   \<and> extract_text_from_file [''uploads/resume.PDF'' \<mapsto> good_pdf]
         (os_path_join UPLOAD_FOLDER ''resume.PDF'') = ''''"
proof -
  have j: "os_path_join UPLOAD_FOLDER ''resume.PDF'' = ''uploads/resume.PDF''"
    by (simp add: os_path_join_def UPLOAD_FOLDER_def startswith_def endswith_def)
  have a: "allowed_file ''resume.PDF'' = Inr True"
    by (simp add: allowed_file_def rsplit1_def py_get_def lower_def lower_char_def)
  have n1: "\<not> endswith ''uploads/resume.PDF'' ''.pdf''" by (simp add: endswith_def)
  have n2: "\<not> endswith ''uploads/resume.PDF'' ''.docx''" by (simp add: endswith_def)
  from n1 n2 have e: "extract_text_from_file [''uploads/resume.PDF'' \<mapsto> good_pdf]
      ''uploads/resume.PDF'' = ''''"
    by (simp add: extract_text_from_file_def)
  from a j n1 n2 e show ?thesis by (simp only: simp_thms)
qed

section \<open>Properties of \<^verbatim>\<open>str.format\<close> and of the templates\<close>

lemma prepend_Nil: "prepend [] r = r"
  by (cases r) simp_all

lemma prepend_prepend: "prepend a (prepend b r) = prepend (a @ b) r"
  by (cases r) simp_all

lemma prepend_eq_Inr: "(prepend a r = Inr s) = (\<exists>t. r = Inr t \<and> s = a @ t)"
  by (cases r) auto

text \<open>
  A template that is rendered without an exception is rendered in the same way
  in front of any other text: the reader never looks beyond a complete piece.
\<close>

lemma format_go_append:
  "format_go st a kw = Inr s \<Longrightarrow> format_go st (a @ b) kw = prepend s (format_go None b kw)"
proof (induction st a kw arbitrary: s rule: format_go.induct)
  case (1 kw)
  then show ?case by (simp add: prepend_Nil)
next
  case (2 c cs kw)
  then show ?case
    by (auto simp: prepend_eq_Inr prepend_prepend split: if_splits)
next
  case (3 acc kw)
  then show ?case by simp
next
  case (4 acc c cs kw)
  then show ?case
    by (auto simp: prepend_eq_Inr prepend_prepend split: if_splits sum.splits)
qed

text \<open>Lines that are rendered one by one are rendered the same way when joined.\<close>

lemma format_go_join:
  assumes "list_all2 (\<lambda>l r. format_go None l kw = Inr r) ls rs"
    and "c \<noteq> CHR ''{''" and "c \<noteq> CHR ''}''"
  shows "format_go None (py_join [c] ls) kw = Inr (py_join [c] rs)"
  using assms
proof (induction "[c]" ls arbitrary: rs rule: py_join.induct)
  case 1
  then show ?case by simp
next
  case (2 p)
  then show ?case by (auto simp: list_all2_Cons1)
next
  case (3 p q ps)
  from 3(2) obtain r r' rs' where rs: "rs = r # r' # rs'"
    and r: "format_go None p kw = Inr r"
    and tl: "list_all2 (\<lambda>l r. format_go None l kw = Inr r) (q # ps) (r' # rs')"
    by (auto simp: list_all2_Cons1)
  have rest: "format_go None (py_join [c] (q # ps)) kw = Inr (py_join [c] (r' # rs'))"
    using 3(1)[OF tl 3(3) 3(4)] .
  have sep: "format_go None ([c] @ py_join [c] (q # ps)) kw
       = prepend [c] (format_go None (py_join [c] (q # ps)) kw)"
    using 3(3,4) by simp
  have "format_go None (p @ ([c] @ py_join [c] (q # ps))) kw
       = prepend r (format_go None ([c] @ py_join [c] (q # ps)) kw)"
    using r by (rule format_go_append)
  then show ?case using rs rest sep by simp
qed



text \<open>
  The builder template rendered line by line: the literal lines stay, and each
  of the twenty-two lines with a replacement field ends in the rendered value.
\<close>

lemma builder_lines_render:
  assumes "kw ''name'' = Some v1" "kw ''email'' = Some v2" "kw ''phone'' = Some v3"
    "kw ''linkedin'' = Some v4" "kw ''github'' = Some v5" "kw ''education'' = Some v6"
    "kw ''experience'' = Some v7" "kw ''projects'' = Some v8" "kw ''skills'' = Some v9"
    "kw ''interests'' = Some v10" "kw ''languages'' = Some v11"
  shows \<open>list_all2 (\<lambda>l r. format_go None l kw = Inr r) RESUME_BUILDER_PROMPT_lines [
     '''',
     ''You are a professional YAML code agent specializing in generating a single, complete RenderCV configuration file for the \'sb2nov\' theme.'',
     '''',
     ''Based on the provided user information, you must generate a well-structured YAML code block. The code should start with `cv:` and end correctly, with no extra conversational text or code fences (like ```yaml).'',
     '''',
     ''**YAML Code Generation Instructions:**'',
     ''- **Professional Summary:** Generate a concise, 2-3 sentence professional summary based on the provided user details, focusing on business/data analyst skills. This should be the very first section in `cv.sections`.'',
     ''- **Order of Sections:** The sections in the generated YAML must be in this exact order: `professional_summary`, `experience`, `education`, `projects`, `skills`, `interests`, `languages`.'',
     ''- **Formatting:** Use 2-space indentation. Ensure all lists (`-`) and key-value pairs are formatted correctly.'',
     ''- **Single Page Fit:** Include the provided `design` block with the reduced margins to ensure the CV fits on a single page.'',
     '''',
     ''**User Information to convert to YAML:**'',
     ''Name: '' @ py_str v1,
     ''Email: '' @ py_str v2,
     ''Phone: '' @ py_str v3,
     ''LinkedIn: '' @ py_str v4,
     ''GitHub: '' @ py_str v5,
     ''Education: '' @ py_str v6,
     ''Experience: '' @ py_str v7,
     ''Projects: '' @ py_str v8,
     ''Skills: '' @ py_str v9,
     ''Interests: '' @ py_str v10,
     ''Languages: '' @ py_str v11,
     '''',
     ''**Output the complete YAML code block, and nothing else.**'',
     '''',
     ''cv:'',
     ''  name: '' @ py_str v1,
     ''  location: Location'',
     ''  email: '' @ py_str v2,
     ''  phone: '' @ py_str v3,
     ''  social_networks:'',
     ''    - network: LinkedIn'',
     ''      username: '' @ py_str v4,
     ''    - network: GitHub'',
     ''      username: '' @ py_str v5,
     ''  sections:'',
     ''    professional_summary:'',
     ''      - \'[Generate a 2-3 sentence professional summary based on the user data above. Start with "I am a..."]'' @ [CHR 0x27],
     ''    experience:'',
     ''      '' @ py_str v7,
     ''    education:'',
     ''      '' @ py_str v6,
     ''    projects:'',
     ''      '' @ py_str v8,
     ''    skills:'',
     ''      '' @ py_str v9,
     ''    interests:'',
     ''      - bullet: '' @ py_str v10,
     ''    languages:'',
     ''      - bullet: '' @ py_str v11,
     ''design:'',
     ''  theme: sb2nov'',
     ''  page:'',
     ''    size: us-letter'',
     ''    top_margin: 1cm'',
     ''    bottom_margin: 1cm'',
     ''    left_margin: 1cm'',
     ''    right_margin: 1cm'',
     ''    show_page_numbering: false'',
     ''    show_last_updated_date: false'',
     ''  header:'',
     ''    name_font_size: 20pt'',
     ''    vertical_space_between_name_and_connections: 0.4cm'',
     ''    vertical_space_between_connections_and_first_section: 0.4cm'',
     ''    alignment: center'',
     ''  section_titles:'',
     ''    font_size: 1.2em'',
     ''    line_thickness: 0.5pt'',
     ''    vertical_space_above: 0.3cm'',
     ''    vertical_space_below: 0.2cm'',
     ''  entries:'',
     ''    vertical_space_between_entries: 0.6em'',
     ''    short_second_row: true'',
     ''  highlights:'',
     ''    top_margin: 0.15cm'',
     ''    left_margin: 0.4cm'',
     ''    vertical_space_between_highlights: 0.2cm'',
     ''    horizontal_space_between_bullet_and_highlight: 0.5em'',
     ''  text:'',
     ''    font_size: 9pt'',
     ''    leading: 0.5em'',
     ''    '']\<close>
  using assms by (simp add: RESUME_BUILDER_PROMPT_lines_def format_field_def)

lemma analyzer_lines_render:
  assumes "kw ''resume_text'' = Some v"
  shows \<open>list_all2 (\<lambda>l r. format_go None l kw = Inr r) RESUME_ANALYZER_PROMPT_lines [
     '''',
     ''You are a senior business analyst and career coach. Your task is to analyze the following resume for a business analyst or data analyst role.'',
     '''',
     ''Based on the provided resume text below, perform the following three tasks and present the output in a clear, easy-to-read Markdown format. Use bold headings and bullet points.'',
     '''',
     ''1.  **Resume Score & Justification**'',
     ''    - Give a score from 1 to 100 based on the resume\'s effectiveness.'',
     ''    - Provide a brief, bulleted justification for this score.'',
     '''',
     ''2.  **Tips for Improvement**'',
     ''    - Provide 3-5 concrete, actionable tips to improve the resume\'s clarity and impact.'',
     ''    - Focus on areas like structure, grammar, professional tone, and missing sections.'',
     '''',
     ''3.  **Keyword and Quantifiable Impact Suggestions**'',
     ''    - **Missing Keywords:** Identify 3-5 crucial industry keywords (e.g., SQL, Tableau, Power BI, Python, R, predictive modeling, A/B testing, ETL, dashboarding) that are missing or underutilized.'',
     ''    - **Quantifiable Impact:** For each project or experience bullet point, suggest how to rephrase it to include quantifiable results or metrics. Provide specific, numbered examples for each section of the resume.'',
     '''',
     ''**Resume Text:**'',
     py_str v,
     '''',
     '''']\<close>
  using assms by (simp add: RESUME_ANALYZER_PROMPT_lines_def format_field_def)

text \<open>Neither template can make \<^verbatim>\<open>format\<close> raise, whatever the values are.\<close>

lemma builder_kwargs_lookup:
  "builder_kwargs f ''name'' = Some (form_get f ''name'')"
  "builder_kwargs f ''email'' = Some (form_get f ''email'')"
  "builder_kwargs f ''phone'' = Some (form_get f ''phone'')"
  "builder_kwargs f ''linkedin'' = Some (form_get f ''linkedin'')"
  "builder_kwargs f ''github'' = Some (form_get f ''github'')"
  "builder_kwargs f ''education'' = Some (form_get f ''education'')"
  "builder_kwargs f ''experience'' = Some (form_get f ''experience'')"
  "builder_kwargs f ''projects'' = Some (form_get f ''projects'')"
  "builder_kwargs f ''skills'' = Some (form_get f ''skills'')"
  "builder_kwargs f ''interests'' = Some (form_get f ''interests'')"
  "builder_kwargs f ''languages'' = Some (form_get f ''languages'')"
  by (simp_all add: builder_kwargs_def)

lemma builder_prompt_ok: "\<exists>p. builder_prompt f = Inr p"
proof -
  note r = builder_lines_render[where kw="builder_kwargs f", OF builder_kwargs_lookup]
  have n: "CHR ''\<newline>'' \<noteq> CHR ''{''" "CHR ''\<newline>'' \<noteq> CHR ''}''" by simp_all
  from format_go_join[OF r n]
  have "\<exists>p. format_go None (py_join [CHR ''\<newline>''] RESUME_BUILDER_PROMPT_lines)
      (builder_kwargs f) = Inr p"
    by (rule exI)
  then show ?thesis
    by (simp only: builder_prompt_def format_str_def RESUME_BUILDER_PROMPT_def)
qed

lemma analyzer_prompt_ok: "\<exists>p. analyzer_prompt t = Inr p"
proof -
  have l: "[''resume_text'' \<mapsto> PyStr t] ''resume_text'' = Some (PyStr t)" by simp
  note r = analyzer_lines_render[where kw="[''resume_text'' \<mapsto> PyStr t]" and v="PyStr t", OF l]
  have n: "CHR ''\<newline>'' \<noteq> CHR ''{''" "CHR ''\<newline>'' \<noteq> CHR ''}''" by simp_all
  from format_go_join[OF r n]
  have "\<exists>p. format_go None (py_join [CHR ''\<newline>''] RESUME_ANALYZER_PROMPT_lines)
      [''resume_text'' \<mapsto> PyStr t] = Inr p"
    by (rule exI)
  then show ?thesis
    by (simp only: analyzer_prompt_def format_str_def RESUME_ANALYZER_PROMPT_def)
qed

section \<open>Properties of the request handlers\<close>

lemma py_in_sublist: "py_in sub s = sublist sub s"
  by (induction s) (simp_all add: sublist_Cons_right)

lemma py_in_iff: "py_in sub s = (\<exists>a b. s = a @ sub @ b)"
  by (simp add: py_in_sublist sublist_def)

lemma url_for_builder: "url_for ''builder'' = ''/builder''"
  by (simp add: url_for_def)

lemma url_for_analyzer: "url_for ''analyzer'' = ''/analyzer''"
  by (simp add: url_for_def)

text \<open>The builder, path by path.\<close>

lemma builder_not_post:
  "http_method req \<noteq> ''POST'' \<Longrightarrow> builder ev req w = (Render ''builder.html'' [], w)"
  by (simp add: builder_def)

lemma builder_post:
  assumes "http_method req = ''POST''" and "builder_prompt (form req) = Inr p"
  shows "builder ev req w =
     (case generate_content ev model_flash p of
        Inr yaml_code \<Rightarrow>
          (Render ''builder.html'' [(''yaml_code'', PyStr yaml_code)],
           w\<lparr>llm_calls := llm_calls w @ [(model_flash, p)]\<rparr>)
      | Inl e \<Rightarrow>
          (Redirect ''/builder'',
           w\<lparr>llm_calls := llm_calls w @ [(model_flash, p)],
             flashes := flashes w @ [(''Error generating resume: '' @ exc_str e, ''danger'')]\<rparr>))"
  using assms
  by (simp add: builder_def call_llm_def flash_def url_for_builder split: sum.splits)

text \<open>The analyzer after the extraction, path by path.\<close>

lemma analyze_text_error:
  "py_in ''Error'' t \<Longrightarrow>
     analyze_text ev t w =
       (Redirect ''/analyzer'',
        w\<lparr>flashes := flashes w @ [(''Error processing file: '' @ t, ''danger'')]\<rparr>)"
  by (simp add: analyze_text_def flash_def url_for_analyzer)

lemma analyze_text_call:
  assumes "\<not> py_in ''Error'' t" and "analyzer_prompt t = Inr p"
  shows "analyze_text ev t w =
     (case generate_content ev model_pro p of
        Inr text \<Rightarrow>
          (Render ''analyzer.html'' [(''results'', PyStr (markdown ev text))],
           w\<lparr>llm_calls := llm_calls w @ [(model_pro, p)]\<rparr>)
      | Inl e \<Rightarrow>
          (Redirect ''/analyzer'',
           w\<lparr>llm_calls := llm_calls w @ [(model_pro, p)],
             flashes := flashes w @ [(''Error analyzing resume: '' @ exc_str e, ''danger'')]\<rparr>))"
  using assms
  by (simp add: analyze_text_def call_llm_def flash_def url_for_analyzer split: sum.splits)


text \<open>The analyzer before the extraction: which requests reach the upload.\<close>

lemma analyze_upload_saved:
  assumes "save_error ev (os_path_join UPLOAD_FOLDER (filename file)) = None"
    and "remove_error ev (os_path_join UPLOAD_FOLDER (filename file)) = None"
  shows "analyze_upload ev file w =
     analyze_text ev
       (extract_text_from_file
          ((disk w)(os_path_join UPLOAD_FOLDER (filename file) \<mapsto> content file))
          (os_path_join UPLOAD_FOLDER (filename file)))
       (w\<lparr>disk := (disk w)(os_path_join UPLOAD_FOLDER (filename file) := None)\<rparr>)"
  using assms by (simp add: analyze_upload_def save_def os_remove_def Let_def)

lemma analyze_upload_not_removed:
  assumes "save_error ev (os_path_join UPLOAD_FOLDER (filename file)) = None"
    and "remove_error ev (os_path_join UPLOAD_FOLDER (filename file)) = Some e"
  shows "analyze_upload ev file w =
     (ServerError e,
      w\<lparr>disk := (disk w)(os_path_join UPLOAD_FOLDER (filename file) \<mapsto> content file)\<rparr>)"
  using assms by (simp add: analyze_upload_def save_def os_remove_def Let_def)

lemma analyze_upload_not_saved:
  assumes "save_error ev (os_path_join UPLOAD_FOLDER (filename file)) = Some e"
  shows "analyze_upload ev file w = (ServerError e, w)"
  using assms by (simp add: analyze_upload_def save_def Let_def)

lemma analyzer_upload:
  assumes "http_method req = ''POST''" and "files req ''resume_file'' = Some file"
    and "filename file \<noteq> ''''" and "allowed_file (filename file) = Inr True"
  shows "analyzer ev req w = analyze_upload ev file w"
  using assms by (simp add: analyzer_def upload_truthy_def)

lemma analyzer_no_upload:
  assumes "\<not> (http_method req = ''POST'' \<and> (\<exists>file. files req ''resume_file'' = Some file
      \<and> filename file \<noteq> '''' \<and> allowed_file (filename file) = Inr True))"
  shows "llm_calls (snd (analyzer ev req w)) = llm_calls w"
  using assms
  by (auto simp: analyzer_def upload_truthy_def flash_def split: option.splits sum.splits bool.splits)

text \<open>
  C3. In the analyzer handler, once the text is extracted (and the saved file
  removed), the request is taken for an extraction failure (the flash message
  \<^verbatim>\<open>Error processing file: ...\<close>, the redirect, and no call of the provider) if and
  only if the text contains the substring \<^verbatim>\<open>Error\<close> anywhere, whatever the reason:
  the text of a readable resume that has the word in it takes the failure path as
  well.
\<close>

theorem error_substring_decides:
  assumes "http_method req = ''POST''" and "files req ''resume_file'' = Some up"
    and "filename up \<noteq> ''''" and "allowed_file (filename up) = Inr True"
    and "filepath = os_path_join UPLOAD_FOLDER (filename up)"
    and "save_error ev filepath = None"
    and "resume_text = extract_text_from_file ((disk w)(filepath \<mapsto> content up)) filepath"
    and "remove_error ev filepath = None"
  shows "((\<exists>a b. resume_text = a @ ''Error'' @ b)
        = (analyzer ev req w =
            (Redirect ''/analyzer'',
             w\<lparr>disk := (disk w)(filepath := None),
               flashes := flashes w @ [(''Error processing file: '' @ resume_text, ''danger'')]\<rparr>)))
   \<and> ((\<exists>a b. resume_text = a @ ''Error'' @ b)
        = (llm_calls (snd (analyzer ev req w)) = llm_calls w))"
proof -
  define w2 where "w2 = w\<lparr>disk := (disk w)(filepath := None)\<rparr>"
  have s: "save_error ev (os_path_join UPLOAD_FOLDER (filename up)) = None"
    using assms(6) unfolding assms(5) .
  have r: "remove_error ev (os_path_join UPLOAD_FOLDER (filename up)) = None"
    using assms(8) unfolding assms(5) .
  have a: "analyzer ev req w = analyze_text ev resume_text w2"
    unfolding analyzer_upload[OF assms(1-4)] analyze_upload_saved[OF s r] assms(7) w2_def assms(5) ..
  have c: "(\<exists>a b. resume_text = a @ ''Error'' @ b) = py_in ''Error'' resume_text"
    by (simp only: py_in_iff)
  have w2: "llm_calls w2 = llm_calls w" "flashes w2 = flashes w"
    by (simp_all add: w2_def)
  show ?thesis
  proof (cases "py_in ''Error'' resume_text")
    case True
    then have "analyzer ev req w =
        (Redirect ''/analyzer'',
         w2\<lparr>flashes := flashes w2 @ [(''Error processing file: '' @ resume_text, ''danger'')]\<rparr>)"
      by (simp only: a analyze_text_error)
    with True show ?thesis unfolding c by (simp add: w2_def)
  next
    case False
    obtain p where p: "analyzer_prompt resume_text = Inr p"
      using analyzer_prompt_ok by blast
    have l: "llm_calls (snd (analyzer ev req w)) = llm_calls w @ [(model_pro, p)]"
      by (simp add: a analyze_text_call[OF False p] w2 split: sum.splits)
    then have n: "llm_calls (snd (analyzer ev req w)) \<noteq> llm_calls w" by simp
    then have "analyzer ev req w \<noteq>
            (Redirect ''/analyzer'',
             w\<lparr>disk := (disk w)(filepath := None),
               flashes := flashes w @ [(''Error processing file: '' @ resume_text, ''danger'')]\<rparr>)"
      by auto
    with False n show ?thesis unfolding c by simp
  qed
qed

theorem error_substring_decides_witness:
  "extract_text_from_file [''uploads/cv.pdf'' \<mapsto> error_pdf] ''uploads/cv.pdf''
     = ''Jane DoeError budgeting for sensors''
   \<and> analyzer ev_up (upload_request ''cv.pdf'' error_pdf) w0 =
       (Redirect ''/analyzer'',
        \<lparr>disk = Map.empty,
         flashes = [(''Error processing file: Jane DoeError budgeting for sensors'', ''danger'')],
         llm_calls = []\<rparr>)
   \<and> llm_calls (snd (analyzer ev_up (upload_request ''cv.pdf'' error_pdf) w0)) = []"
proof -
  have j: "''uploads/cv.pdf''
      = os_path_join UPLOAD_FOLDER (filename \<lparr>filename = ''cv.pdf'', content = error_pdf\<rparr>)"
    by (simp add: os_path_join_def UPLOAD_FOLDER_def startswith_def endswith_def)
  have al: "allowed_file (filename \<lparr>filename = ''cv.pdf'', content = error_pdf\<rparr>) = Inr True"
    by (simp add: allowed_file_def rsplit1_def py_get_def lower_def lower_char_def)
  have x: "extract_text_from_file [''uploads/cv.pdf'' \<mapsto> error_pdf] ''uploads/cv.pdf''
     = ''Jane DoeError budgeting for sensors''"
    by (simp add: extract_text_from_file_def endswith_def pdf_try_def pdfplumber_open_def
        error_pdf_def)
  have x': "''Jane DoeError budgeting for sensors''
       = extract_text_from_file
           ((disk w0)(''uploads/cv.pdf'' \<mapsto> content \<lparr>filename = ''cv.pdf'', content = error_pdf\<rparr>))
           ''uploads/cv.pdf''"
    by (simp add: w0_def x)
  have e: "\<exists>a b. ''Jane DoeError budgeting for sensors'' = a @ ''Error'' @ b"
    by (rule exI[of _ "''Jane Doe''"], rule exI[of _ "'' budgeting for sensors''"]) simp
  have m: "http_method (upload_request ''cv.pdf'' error_pdf) = ''POST''"
    by (simp add: upload_request_def)
  have f: "files (upload_request ''cv.pdf'' error_pdf) ''resume_file''
         = Some \<lparr>filename = ''cv.pdf'', content = error_pdf\<rparr>"
    by (simp add: upload_request_def)
  have n: "filename \<lparr>filename = ''cv.pdf'', content = error_pdf\<rparr> \<noteq> ''''" by simp
  have s: "save_error ev_up ''uploads/cv.pdf'' = None" by (simp add: ev_up_def)
  have rm: "remove_error ev_up ''uploads/cv.pdf'' = None" by (simp add: ev_up_def)
  note t = error_substring_decides[OF m f n al j s x' rm]
  from iffD1[OF conjunct1[OF t] e]
  have r: "analyzer ev_up (upload_request ''cv.pdf'' error_pdf) w0 =
            (Redirect ''/analyzer'',
             w0\<lparr>disk := (disk w0)(''uploads/cv.pdf'' := None),
               flashes := flashes w0
                 @ [(''Error processing file: '' @ ''Jane DoeError budgeting for sensors'', ''danger'')]\<rparr>)" .
  from iffD1[OF conjunct2[OF t] e]
  have l: "llm_calls (snd (analyzer ev_up (upload_request ''cv.pdf'' error_pdf) w0)) = llm_calls w0" .
  from x r l show ?thesis by (simp add: w0_def)
qed




text \<open>
  C8. For every builder or analyzer request during which the provider is called
  and the call raises, the handler returns a redirect (to its own page) and
  records a flash message of category \<^verbatim>\<open>danger\<close> that carries the message of the
  exception; the exception does not escape the handler.
\<close>

theorem provider_failure_is_flashed:
  assumes "generate_content ev m p = Inl e"
  shows "(llm_calls (snd (builder ev req w)) = llm_calls w @ [(m, p)] \<longrightarrow>
            fst (builder ev req w) = Redirect ''/builder''
            \<and> flashes (snd (builder ev req w))
                = flashes w @ [(''Error generating resume: '' @ exc_str e, ''danger'')])
       \<and> (llm_calls (snd (analyzer ev req w)) = llm_calls w @ [(m, p)] \<longrightarrow>
            fst (analyzer ev req w) = Redirect ''/analyzer''
            \<and> flashes (snd (analyzer ev req w))
                = flashes w @ [(''Error analyzing resume: '' @ exc_str e, ''danger'')])"
proof (rule conjI; rule impI)
  assume c: "llm_calls (snd (builder ev req w)) = llm_calls w @ [(m, p)]"
  have post: "http_method req = ''POST''"
  proof (rule ccontr)
    assume "http_method req \<noteq> ''POST''"
    then have "builder ev req w = (Render ''builder.html'' [], w)" by (rule builder_not_post)
    with c show False by simp
  qed
  obtain p' where p': "builder_prompt (form req) = Inr p'"
    using builder_prompt_ok by blast
  note b = builder_post[OF post p', of ev w]
  have "llm_calls (snd (builder ev req w)) = llm_calls w @ [(model_flash, p')]"
    by (simp add: b split: sum.splits)
  with c have "m = model_flash" and "p = p'" by simp_all
  with assms have "generate_content ev model_flash p' = Inl e" by simp
  with b show "fst (builder ev req w) = Redirect ''/builder''
            \<and> flashes (snd (builder ev req w))
                = flashes w @ [(''Error generating resume: '' @ exc_str e, ''danger'')]"
    by simp
next
  assume c: "llm_calls (snd (analyzer ev req w)) = llm_calls w @ [(m, p)]"
  have "http_method req = ''POST'' \<and> (\<exists>up. files req ''resume_file'' = Some up
      \<and> filename up \<noteq> '''' \<and> allowed_file (filename up) = Inr True)"
  proof (rule ccontr)
    assume "\<not> (http_method req = ''POST'' \<and> (\<exists>up. files req ''resume_file'' = Some up
      \<and> filename up \<noteq> '''' \<and> allowed_file (filename up) = Inr True))"
    then have "llm_calls (snd (analyzer ev req w)) = llm_calls w" by (rule analyzer_no_upload)
    with c show False by simp
  qed
  then obtain up where post: "http_method req = ''POST''"
    and up: "files req ''resume_file'' = Some up" "filename up \<noteq> ''''"
      "allowed_file (filename up) = Inr True"
    by blast
  have a: "analyzer ev req w = analyze_upload ev up w"
    using post up by (rule analyzer_upload)
  have s: "save_error ev (os_path_join UPLOAD_FOLDER (filename up)) = None"
  proof (cases "save_error ev (os_path_join UPLOAD_FOLDER (filename up))")
    case None
    then show ?thesis .
  next
    case (Some e')
    then have "analyze_upload ev up w = (ServerError e', w)" by (rule analyze_upload_not_saved)
    with a c show ?thesis by simp
  qed
  have r: "remove_error ev (os_path_join UPLOAD_FOLDER (filename up)) = None"
  proof (cases "remove_error ev (os_path_join UPLOAD_FOLDER (filename up))")
    case None
    then show ?thesis .
  next
    case (Some e')
    with s have "analyze_upload ev up w = (ServerError e',
        w\<lparr>disk := (disk w)(os_path_join UPLOAD_FOLDER (filename up) \<mapsto> content up)\<rparr>)"
      by (rule analyze_upload_not_removed)
    with a c show ?thesis by simp
  qed
  define t where "t = extract_text_from_file
      ((disk w)(os_path_join UPLOAD_FOLDER (filename up) \<mapsto> content up))
      (os_path_join UPLOAD_FOLDER (filename up))"
  define w2 where "w2 = w\<lparr>disk := (disk w)(os_path_join UPLOAD_FOLDER (filename up) := None)\<rparr>"
  have w2: "llm_calls w2 = llm_calls w" "flashes w2 = flashes w" by (simp_all add: w2_def)
  have a2: "analyzer ev req w = analyze_text ev t w2"
    unfolding a analyze_upload_saved[OF s r] t_def w2_def ..
  have ne: "\<not> py_in ''Error'' t"
  proof
    assume "py_in ''Error'' t"
    then have "llm_calls (snd (analyze_text ev t w2)) = llm_calls w2"
      by (simp add: analyze_text_error)
    with a2 c w2 show False by simp
  qed
  obtain p' where p': "analyzer_prompt t = Inr p'"
    using analyzer_prompt_ok by blast
  note b = analyze_text_call[OF ne p', of ev w2]
  have "llm_calls (snd (analyzer ev req w)) = llm_calls w @ [(model_pro, p')]"
    by (simp add: a2 b w2 split: sum.splits)
  with c have "m = model_pro" and "p = p'" by simp_all
  with assms have "generate_content ev model_pro p' = Inl e" by simp
  with b show "fst (analyzer ev req w) = Redirect ''/analyzer''
            \<and> flashes (snd (analyzer ev req w))
                = flashes w @ [(''Error analyzing resume: '' @ exc_str e, ''danger'')]"
    by (simp add: a2 w2)
qed

theorem provider_failure_is_flashed_witness:
  "fst (builder ev_down (builder_request jane_form) w0) = Redirect ''/builder''
   \<and> flashes (snd (builder ev_down (builder_request jane_form) w0))
       = [(''Error generating resume: 429 quota exceeded'', ''danger'')]
   \<and> fst (analyzer ev_down (upload_request ''cv.pdf'' good_pdf) w0) = Redirect ''/analyzer''
   \<and> flashes (snd (analyzer ev_down (upload_request ''cv.pdf'' good_pdf) w0))
       = [(''Error analyzing resume: 429 quota exceeded'', ''danger'')]"
proof -
  obtain p where p: "builder_prompt jane_form = Inr p"
    using builder_prompt_ok by blast
  have g: "\<And>m q. generate_content ev_down m q = Inl (Failure ''429 quota exceeded'')"
    by (simp add: ev_down_def)
  have "builder ev_down (builder_request jane_form) w0 =
      (Redirect ''/builder'',
       w0\<lparr>llm_calls := llm_calls w0 @ [(model_flash, p)],
          flashes := flashes w0
            @ [(''Error generating resume: '' @ exc_str (Failure ''429 quota exceeded''), ''danger'')]\<rparr>)"
    using p by (simp add: builder_post builder_request_def g)
  then have c1: "llm_calls (snd (builder ev_down (builder_request jane_form) w0))
      = llm_calls w0 @ [(model_flash, p)]"
    by simp
  have x: "extract_text_from_file ((disk w0)(''uploads/cv.pdf'' \<mapsto> good_pdf)) ''uploads/cv.pdf''
      = ''Jane DoeAnalyst''"
    by (simp add: extract_text_from_file_def endswith_def pdf_try_def pdfplumber_open_def
        good_pdf_def)
  have ne: "\<not> py_in ''Error'' ''Jane DoeAnalyst''" by simp
  obtain q where q: "analyzer_prompt ''Jane DoeAnalyst'' = Inr q"
    using analyzer_prompt_ok by blast
  have j: "os_path_join UPLOAD_FOLDER ''cv.pdf'' = ''uploads/cv.pdf''"
    by (simp add: os_path_join_def UPLOAD_FOLDER_def startswith_def endswith_def)
  have al: "allowed_file ''cv.pdf'' = Inr True"
    by (simp add: allowed_file_def rsplit1_def py_get_def lower_def lower_char_def)
  have s: "\<And>d. save_error ev_down d = None" by (simp add: ev_down_def)
  have rm: "\<And>d. remove_error ev_down d = None" by (simp add: ev_down_def)
  have "analyzer ev_down (upload_request ''cv.pdf'' good_pdf) w0
      = analyze_upload ev_down \<lparr>filename = ''cv.pdf'', content = good_pdf\<rparr> w0"
    by (rule analyzer_upload) (simp_all add: upload_request_def al)
  also have "\<dots> = analyze_text ev_down ''Jane DoeAnalyst''
      (w0\<lparr>disk := (disk w0)(''uploads/cv.pdf'' := None)\<rparr>)"
    by (simp add: analyze_upload_saved s rm j x)
  finally have "llm_calls (snd (analyzer ev_down (upload_request ''cv.pdf'' good_pdf) w0))
      = llm_calls w0 @ [(model_pro, q)]"
    by (simp add: analyze_text_call[OF ne q] g)
  note c2 = this
  note t1 = provider_failure_is_flashed[OF g[of model_flash p], THEN conjunct1, rule_format, OF c1]
  note t2 = provider_failure_is_flashed[OF g[of model_pro q], THEN conjunct2, rule_format, OF c2]
  from t1 t2 show ?thesis by (simp add: w0_def)
qed

section \<open>Properties of the builder prompt\<close>


























end
